theory Spec2Isabelle
  imports Complex_Main
begin

section \<open>JavaScript numbers\<close>

text \<open>
  The water physics of \<^verbatim>\<open>createWaterPhysics\<close> computes on JavaScript numbers. A number is
  modelled as a real, one of the two infinities, or NaN. Finite arithmetic is exact (the
  rounding of IEEE doubles and overflow to infinity are not modelled, and the two zeros
  are one value); the special values follow IEEE 754: NaN is absorbing, every comparison
  with NaN is false, \<open>Infinity - Infinity\<close>, \<open>0 * Infinity\<close> and \<open>0 / 0\<close> are NaN.
\<close>

datatype jsnum = Num real | PInf | NInf | NaN

instantiation jsnum :: "{plus, minus, uminus, times}"
begin

fun uminus_jsnum :: "jsnum \<Rightarrow> jsnum" where
  "- Num a = Num (- a)"
| "- PInf = NInf"
| "- NInf = PInf"
| "- NaN = NaN"

fun plus_jsnum :: "jsnum \<Rightarrow> jsnum \<Rightarrow> jsnum" where
  "Num a + Num b = Num (a + b)"
| "NaN + _ = NaN"
| "_ + NaN = NaN"
| "PInf + NInf = NaN"
| "NInf + PInf = NaN"
| "PInf + _ = PInf"
| "_ + PInf = PInf"
| "NInf + _ = NInf"
| "_ + NInf = NInf"

definition minus_jsnum :: "jsnum \<Rightarrow> jsnum \<Rightarrow> jsnum" where
  "a - b = a + (- b)" for a b :: jsnum

fun times_jsnum :: "jsnum \<Rightarrow> jsnum \<Rightarrow> jsnum" where
  "Num a * Num b = Num (a * b)"
| "NaN * _ = NaN"
| "_ * NaN = NaN"
| "PInf * Num b = (if b = 0 then NaN else if 0 < b then PInf else NInf)"
| "NInf * Num b = (if b = 0 then NaN else if 0 < b then NInf else PInf)"
| "Num a * PInf = (if a = 0 then NaN else if 0 < a then PInf else NInf)"
| "Num a * NInf = (if a = 0 then NaN else if 0 < a then NInf else PInf)"
| "PInf * PInf = PInf"
| "PInf * NInf = NInf"
| "NInf * PInf = NInf"
| "NInf * NInf = PInf"

instance ..

end

text \<open>Division \<^verbatim>\<open>a / b\<close>; a zero divisor is taken as \<open>+0\<close>.\<close>

fun js_div :: "jsnum \<Rightarrow> jsnum \<Rightarrow> jsnum" where
  "js_div (Num a) (Num b) =
     (if b = 0 then (if a = 0 then NaN else if 0 < a then PInf else NInf)
      else Num (a / b))"
| "js_div NaN _ = NaN"
| "js_div _ NaN = NaN"
| "js_div (Num a) PInf = Num 0"
| "js_div (Num a) NInf = Num 0"
| "js_div PInf (Num b) = (if 0 \<le> b then PInf else NInf)"
| "js_div NInf (Num b) = (if 0 \<le> b then NInf else PInf)"
| "js_div PInf PInf = NaN"
| "js_div PInf NInf = NaN"
| "js_div NInf PInf = NaN"
| "js_div NInf NInf = NaN"

text \<open>The comparisons \<^verbatim>\<open>a < b\<close>, \<^verbatim>\<open>a <= b\<close> and \<^verbatim>\<open>a > b\<close>: false as soon as one side is NaN.\<close>

fun js_lt :: "jsnum \<Rightarrow> jsnum \<Rightarrow> bool" where
  "js_lt (Num a) (Num b) = (a < b)"
| "js_lt NaN _ = False"
| "js_lt _ NaN = False"
| "js_lt _ NInf = False"
| "js_lt PInf _ = False"
| "js_lt NInf _ = True"
| "js_lt _ PInf = True"

fun js_le :: "jsnum \<Rightarrow> jsnum \<Rightarrow> bool" where
  "js_le (Num a) (Num b) = (a \<le> b)"
| "js_le NaN _ = False"
| "js_le _ NaN = False"
| "js_le NInf _ = True"
| "js_le _ PInf = True"
| "js_le _ NInf = False"
| "js_le PInf _ = False"

definition js_gt :: "jsnum \<Rightarrow> jsnum \<Rightarrow> bool" where
  "js_gt a b = js_lt b a"

text \<open>\<^verbatim>\<open>Math.sin\<close>, \<^verbatim>\<open>Math.sqrt\<close>, \<^verbatim>\<open>Math.ceil\<close> and \<^verbatim>\<open>Math.min\<close> of two arguments.\<close>

fun js_sin :: "jsnum \<Rightarrow> jsnum" where
  "js_sin (Num a) = Num (sin a)"
| "js_sin _ = NaN"

fun js_sqrt :: "jsnum \<Rightarrow> jsnum" where
  "js_sqrt (Num a) = (if a < 0 then NaN else Num (sqrt a))"
| "js_sqrt PInf = PInf"
| "js_sqrt NInf = NaN"
| "js_sqrt NaN = NaN"

fun js_ceil :: "jsnum \<Rightarrow> jsnum" where
  "js_ceil (Num a) = Num (of_int \<lceil>a\<rceil>)"
| "js_ceil a = a"

fun js_min :: "jsnum \<Rightarrow> jsnum \<Rightarrow> jsnum" where
  "js_min (Num a) (Num b) = Num (min a b)"
| "js_min NaN _ = NaN"
| "js_min _ NaN = NaN"
| "js_min NInf _ = NInf"
| "js_min _ NInf = NInf"
| "js_min PInf b = b"
| "js_min a PInf = a"

text \<open>The operand test of \<^verbatim>\<open>a || b\<close>: \<open>0\<close> and NaN are falsy.\<close>

fun js_truthy :: "jsnum \<Rightarrow> bool" where
  "js_truthy (Num a) = (a \<noteq> 0)"
| "js_truthy NaN = False"
| "js_truthy _ = True"

text \<open>
  The number of times the body of \<^verbatim>\<open>for (let i = 0; i < n; i++)\<close> runs: the number of
  naturals below \<open>n\<close>. With \<open>n = Infinity\<close> the loop never ends, which is \<open>None\<close>.
\<close>

fun loopCount :: "jsnum \<Rightarrow> nat option" where
  "loopCount (Num n) = Some (nat \<lceil>n\<rceil>)"
| "loopCount PInf = None"
| "loopCount NInf = Some 0"
| "loopCount NaN = Some 0"

section \<open>Vectors of three.js\<close>

datatype vec2 = Vec2 (v2x: jsnum) (v2y: jsnum)

datatype vec3 = Vec3 (vx: jsnum) (vy: jsnum) (vz: jsnum)

datatype quat = Quat jsnum jsnum jsnum jsnum

text \<open>
  The methods of \<^verbatim>\<open>THREE.Vector3\<close> that the physics calls, as the library defines them:
  \<^verbatim>\<open>normalize()\<close> is \<^verbatim>\<open>divideScalar(this.length() || 1)\<close> and \<^verbatim>\<open>divideScalar(s)\<close> is
  \<^verbatim>\<open>multiplyScalar(1 / s)\<close>.
\<close>

text \<open>The zero vector \<^verbatim>\<open>new THREE.Vector3(0, 0, 0)\<close>.\<close>

definition zero3 :: vec3 where
  "zero3 = Vec3 (Num 0) (Num 0) (Num 0)"

definition v3_add :: "vec3 \<Rightarrow> vec3 \<Rightarrow> vec3" where
  "v3_add a b = Vec3 (vx a + vx b) (vy a + vy b) (vz a + vz b)"

definition multiplyScalar :: "vec3 \<Rightarrow> jsnum \<Rightarrow> vec3" where
  "multiplyScalar v s = Vec3 (vx v * s) (vy v * s) (vz v * s)"

definition divideScalar :: "vec3 \<Rightarrow> jsnum \<Rightarrow> vec3" where
  "divideScalar v s = multiplyScalar v (js_div (Num 1) s)"

definition lengthSq :: "vec3 \<Rightarrow> jsnum" where
  "lengthSq v = vx v * vx v + vy v * vy v + vz v * vz v"

definition length3 :: "vec3 \<Rightarrow> jsnum" where
  "length3 v = js_sqrt (vx v * vx v + vy v * vy v + vz v * vz v)"

definition normalize :: "vec3 \<Rightarrow> vec3" where
  "normalize v = divideScalar v (if js_truthy (length3 v) then length3 v else Num 1)"

section \<open>Settings\<close>

record settings =
  density :: jsnum
  buoyancyMultiplier :: jsnum
  linearDrag :: jsnum
  quadraticDrag :: jsnum
  waveHeight :: jsnum
  waveFrequency :: jsnum
  waveSpeed :: jsnum
  waveDirection :: vec2
  surfaceTension :: jsnum
  vorticity :: jsnum
  damping :: jsnum
  subSteps :: jsnum
  maxBuoyancyPoints :: jsnum

text \<open>
  The module's defaults; \<^verbatim>\<open>new THREE.Vector2(1, 1).normalize()\<close> is \<open>(1 / sqrt 2, 1 / sqrt 2)\<close>.
\<close>

definition waterPhysicsParams :: settings where
  "waterPhysicsParams =
     \<lparr> density = Num 1.0, buoyancyMultiplier = Num 1.2,
       linearDrag = Num 0.5, quadraticDrag = Num 0.05,
       waveHeight = Num 0.2, waveFrequency = Num 0.5, waveSpeed = Num 1.0,
       waveDirection = Vec2 (Num (1 / sqrt 2)) (Num (1 / sqrt 2)),
       surfaceTension = Num 0.07, vorticity = Num 0.1, damping = Num 0.03,
       subSteps = Num 3, maxBuoyancyPoints = Num 8 \<rparr>"

text \<open>
  The \<^verbatim>\<open>params\<close> argument of \<^verbatim>\<open>createWaterPhysics\<close>: an object that may or may not hold
  each option.
\<close>

record params =
  p_density :: "jsnum option"
  p_buoyancyMultiplier :: "jsnum option"
  p_linearDrag :: "jsnum option"
  p_quadraticDrag :: "jsnum option"
  p_waveHeight :: "jsnum option"
  p_waveFrequency :: "jsnum option"
  p_waveSpeed :: "jsnum option"
  p_waveDirection :: "vec2 option"
  p_surfaceTension :: "jsnum option"
  p_vorticity :: "jsnum option"
  p_damping :: "jsnum option"
  p_subSteps :: "jsnum option"
  p_maxBuoyancyPoints :: "jsnum option"

definition override :: "'a \<Rightarrow> 'a option \<Rightarrow> 'a" where
  "override d p = (case p of None \<Rightarrow> d | Some v \<Rightarrow> v)"

text \<open>The spread \<^verbatim>\<open>{ ...waterPhysicsParams, ...params }\<close>: a key of \<open>params\<close> wins.\<close>

definition mergeSettings :: "settings \<Rightarrow> params \<Rightarrow> settings" where
  "mergeSettings d p =
     \<lparr> density = override (density d) (p_density p),
       buoyancyMultiplier = override (buoyancyMultiplier d) (p_buoyancyMultiplier p),
       linearDrag = override (linearDrag d) (p_linearDrag p),
       quadraticDrag = override (quadraticDrag d) (p_quadraticDrag p),
       waveHeight = override (waveHeight d) (p_waveHeight p),
       waveFrequency = override (waveFrequency d) (p_waveFrequency p),
       waveSpeed = override (waveSpeed d) (p_waveSpeed p),
       waveDirection = override (waveDirection d) (p_waveDirection p),
       surfaceTension = override (surfaceTension d) (p_surfaceTension p),
       vorticity = override (vorticity d) (p_vorticity p),
       damping = override (damping d) (p_damping p),
       subSteps = override (subSteps d) (p_subSteps p),
       maxBuoyancyPoints = override (maxBuoyancyPoints d) (p_maxBuoyancyPoints p) \<rparr>"

section \<open>The wave height field\<close>

definition getWaterHeight :: "settings \<Rightarrow> jsnum \<Rightarrow> jsnum \<Rightarrow> jsnum \<Rightarrow> jsnum" where
  "getWaterHeight s x z time =
     (let waveX = v2x (waveDirection s);
          waveZ = v2y (waveDirection s);
          height = Num 0;
          height = height + js_sin
            ((x * waveX + z * waveZ) * waveFrequency s +
             time * waveSpeed s) * waveHeight s;
          height = height + js_sin
            ((x * (- waveZ) + z * waveX) * waveFrequency s * Num 1.5 +
             time * waveSpeed s * Num 0.8) * waveHeight s * Num 0.3;
          height = height + js_sin
            ((x * (waveX + waveZ) + z * (waveX - waveZ)) * waveFrequency s * Num 2.3 +
             time * waveSpeed s * Num 1.2) * waveHeight s * Num 0.15
      in height)"

section \<open>Buoyancy and drag at a point\<close>

text \<open>The surface height \<^verbatim>\<open>actualWaterHeight\<close> that \<^verbatim>\<open>calculateBuoyancyForce\<close> computes.\<close>

definition actualWaterHeight :: "settings \<Rightarrow> vec3 \<Rightarrow> jsnum \<Rightarrow> jsnum \<Rightarrow> jsnum" where
  "actualWaterHeight s position waterLevel time =
     waterLevel + getWaterHeight s (vx position) (vz position) time"

text \<open>The result object \<^verbatim>\<open>{ force, submergedDepth }\<close> is a pair.\<close>

definition calculateBuoyancyForce ::
  "settings \<Rightarrow> vec3 \<Rightarrow> jsnum \<Rightarrow> jsnum \<Rightarrow> vec3 \<times> jsnum" where
  "calculateBuoyancyForce s position waterLevel time =
     (if js_gt (vy position) (actualWaterHeight s position waterLevel time)
      then (Vec3 (Num 0) (Num 0) (Num 0), Num 0)
      else
        let submergedDepth = actualWaterHeight s position waterLevel time - vy position;
            buoyancyForce = density s * Num 9.81 * submergedDepth * buoyancyMultiplier s;
            force = Vec3 (Num 0) buoyancyForce (Num 0)
        in (force, submergedDepth))"

definition calculateDragForce :: "settings \<Rightarrow> vec3 \<Rightarrow> jsnum \<Rightarrow> vec3" where
  "calculateDragForce s velocity submergedDepth =
     (if js_le submergedDepth (Num 0) then Vec3 (Num 0) (Num 0) (Num 0)
      else
        let speed = length3 velocity in
        if js_lt speed (Num 0.001) then Vec3 (Num 0) (Num 0) (Num 0)
        else
          let dragMagnitude =
                (linearDrag s * speed + quadraticDrag s * speed * speed) * submergedDepth;
              dragForce = multiplyScalar (normalize velocity) (- dragMagnitude)
          in dragForce)"

section \<open>Bodies, colliders and the world of the physics engine\<close>

datatype shapeType = Ball | Cuboid | Capsule | Cylinder | Cone | OtherShape

datatype rigidBodyType = Dynamic | Fixed | KinematicPositionBased | KinematicVelocityBased

record collider =
  colliderType :: shapeType
  colliderHalfExtents :: vec3

text \<open>
  A rigid body of the engine, as far as the water physics reads it: \<^verbatim>\<open>translation()\<close>,
  \<^verbatim>\<open>linvel()\<close>, \<^verbatim>\<open>rotation()\<close>, the handle \<^verbatim>\<open>collider(0)\<close> and \<^verbatim>\<open>bodyType()\<close>. The engine
  owns what an impulse does to the body; the model records every call of
  \<^verbatim>\<open>applyImpulse\<close> in \<open>impulses\<close>, oldest first.
\<close>

record rigidBody =
  translation :: vec3
  linvel :: vec3
  rotation :: quat
  collider0 :: nat
  bodyType :: rigidBodyType
  impulses :: "vec3 list"

definition applyImpulse :: "rigidBody \<Rightarrow> vec3 \<Rightarrow> rigidBody" where
  "applyImpulse rb i = rb\<lparr>impulses := impulses rb @ [i]\<rparr>"

text \<open>\<^verbatim>\<open>world.getCollider(handle)\<close> is \<open>None\<close> where the engine returns null.\<close>

record world =
  bodies :: "rigidBody list"
  getCollider :: "nat \<Rightarrow> collider option"

section \<open>The per-body update\<close>

definition halfExtentsOf :: "collider \<Rightarrow> vec3" where
  "halfExtentsOf c =
     (let halfExtents = Vec3 (Num 0.5) (Num 0.5) (Num 0.5) in
      if colliderType c = Cuboid
      then Vec3 (vx (colliderHalfExtents c)) (vy (colliderHalfExtents c))
             (vz (colliderHalfExtents c))
      else halfExtents)"

definition numPoints :: "settings \<Rightarrow> vec3 \<Rightarrow> jsnum" where
  "numPoints s halfExtents =
     js_min (maxBuoyancyPoints s)
       (js_ceil (vx halfExtents * vy halfExtents * vz halfExtents * Num 8))"

text \<open>
  The sampling loop. \<^verbatim>\<open>Math.random()\<close> is the source \<open>rnd\<close> of reals of \<open>[0, 1)\<close>, read
  at a running index \<open>k\<close>; each point draws three values, for x, y and z in this order.
\<close>

fun sampleBuoyancyPoints ::
  "nat \<Rightarrow> (nat \<Rightarrow> real) \<Rightarrow> nat \<Rightarrow> vec3 \<Rightarrow> vec3 \<Rightarrow> vec3 list" where
  "sampleBuoyancyPoints 0 rnd k position halfExtents = []"
| "sampleBuoyancyPoints (Suc n) rnd k position halfExtents =
     (let px = (Num (rnd k) * Num 2 - Num 1) * vx halfExtents;
          py = (Num (rnd (k + 1)) * Num 2 - Num 1) * vy halfExtents;
          pz = (Num (rnd (k + 2)) * Num 2 - Num 1) * vz halfExtents;
          worldPoint = Vec3 (vx position + px) (vy position + py) (vz position + pz)
      in worldPoint # sampleBuoyancyPoints n rnd (k + 3) position halfExtents)"

text \<open>
  The accumulation loop over the points: the pair is \<^verbatim>\<open>totalBuoyancyForce\<close> and the
  running sum held in \<^verbatim>\<open>averageSubmergedDepth\<close>.
\<close>

fun accumulate ::
  "settings \<Rightarrow> jsnum \<Rightarrow> jsnum \<Rightarrow> vec3 list \<Rightarrow> vec3 \<times> jsnum \<Rightarrow> vec3 \<times> jsnum" where
  "accumulate s waterLevel time [] acc = acc"
| "accumulate s waterLevel time (point # points) acc =
     (let (force, submergedDepth) = calculateBuoyancyForce s point waterLevel time
      in accumulate s waterLevel time points
           (v3_add (fst acc) force, snd acc + submergedDepth))"

text \<open>
  The locals \<^verbatim>\<open>totalBuoyancyForce\<close> and \<^verbatim>\<open>averageSubmergedDepth\<close> once the loop is over
  and the sum of the depths is divided by \<^verbatim>\<open>buoyancyPoints.length\<close>.
\<close>

definition sampleTotals :: "settings \<Rightarrow> jsnum \<Rightarrow> jsnum \<Rightarrow> vec3 list \<Rightarrow> vec3 \<times> jsnum" where
  "sampleTotals s waterLevel time buoyancyPoints =
     (let totals = accumulate s waterLevel time buoyancyPoints
                     (Vec3 (Num 0) (Num 0) (Num 0), Num 0);
          totalBuoyancyForce = fst totals;
          averageSubmergedDepth = js_div (snd totals) (Num (real (length buoyancyPoints)))
      in (totalBuoyancyForce, averageSubmergedDepth))"

text \<open>The block "Apply the accumulated forces": the buoyancy and the drag impulse.\<close>

definition applyAccumulatedForces :: "rigidBody \<Rightarrow> vec3 \<Rightarrow> vec3 \<Rightarrow> jsnum \<Rightarrow> rigidBody" where
  "applyAccumulatedForces rb totalBuoyancyForce totalDragForce deltaTime =
     (let rb = (if js_gt (lengthSq totalBuoyancyForce) (Num 0)
                then applyImpulse rb
                       (Vec3 (Num 0) (vy totalBuoyancyForce * deltaTime) (Num 0))
                else rb)
      in if js_gt (lengthSq totalDragForce) (Num 0)
         then applyImpulse rb
                (Vec3 (vx totalDragForce * deltaTime) (vy totalDragForce * deltaTime)
                   (vz totalDragForce * deltaTime))
         else rb)"

text \<open>The block "Apply wave forces for objects at the surface".\<close>

definition applyWaveForces ::
  "settings \<Rightarrow> rigidBody \<Rightarrow> vec3 \<Rightarrow> jsnum \<Rightarrow> jsnum \<Rightarrow> jsnum \<Rightarrow> rigidBody" where
  "applyWaveForces s rb halfExtents averageSubmergedDepth time deltaTime =
     (if js_gt averageSubmergedDepth (Num 0) \<and>
         js_lt averageSubmergedDepth (vy halfExtents * Num 2)
      then
        let waveForce = multiplyScalar
              (Vec3 (v2x (waveDirection s)) (Num 0) (v2y (waveDirection s)))
              (waveHeight s * Num 0.5 * js_sin (time * waveSpeed s))
        in applyImpulse rb
             (Vec3 (vx waveForce * deltaTime) (Num 0) (vz waveForce * deltaTime))
      else rb)"

text \<open>
  \<^verbatim>\<open>applyWaterPhysics(rigidBody, waterLevel, time, deltaTime)\<close>. The result is the body
  after the call and the index of the next random draw; it is \<open>None\<close> when the sampling
  loop never ends. The rotation is read and not used.
\<close>

definition applyWaterPhysics ::
  "settings \<Rightarrow> (nat \<Rightarrow> collider option) \<Rightarrow> (nat \<Rightarrow> real) \<Rightarrow>
   rigidBody \<Rightarrow> jsnum \<Rightarrow> jsnum \<Rightarrow> jsnum \<Rightarrow> nat \<Rightarrow> (rigidBody \<times> nat) option" where
  "applyWaterPhysics s getColl rnd rb waterLevel time deltaTime k =
     (let position = translation rb;
          velocity = linvel rb;
          rotation = rotation rb
      in if js_gt (vy position) (waterLevel + Num 5) then Some (rb, k)
         else case getColl (collider0 rb) of
           None \<Rightarrow> Some (rb, k)
         | Some collider \<Rightarrow>
             let halfExtents = halfExtentsOf collider in
             (case loopCount (numPoints s halfExtents) of
                None \<Rightarrow> None
              | Some n \<Rightarrow>
                  let buoyancyPoints = sampleBuoyancyPoints n rnd k position halfExtents;
                      totals = sampleTotals s waterLevel time buoyancyPoints;
                      totalBuoyancyForce = fst totals;
                      averageSubmergedDepth = snd totals;
                      totalDragForce = calculateDragForce s
                        (Vec3 (vx velocity) (vy velocity) (vz velocity))
                        averageSubmergedDepth;
                      rb = applyAccumulatedForces rb totalBuoyancyForce totalDragForce
                             deltaTime;
                      rb = applyWaveForces s rb halfExtents averageSubmergedDepth time
                             deltaTime
                  in Some (rb, k + 3 * n)))"

section \<open>The simulator object\<close>

text \<open>
  The loop of \<^verbatim>\<open>update(deltaTime, waterLevel, time)\<close> over \<^verbatim>\<open>world.bodies\<close>: only dynamic
  bodies are passed to \<^verbatim>\<open>applyWaterPhysics\<close>.
\<close>

fun updateBodies ::
  "settings \<Rightarrow> (nat \<Rightarrow> collider option) \<Rightarrow> (nat \<Rightarrow> real) \<Rightarrow>
   jsnum \<Rightarrow> jsnum \<Rightarrow> jsnum \<Rightarrow> rigidBody list \<Rightarrow> nat \<Rightarrow> (rigidBody list \<times> nat) option" where
  "updateBodies s getColl rnd deltaTime waterLevel time [] k = Some ([], k)"
| "updateBodies s getColl rnd deltaTime waterLevel time (rb # rest) k =
     (if bodyType rb = Dynamic
      then (case applyWaterPhysics s getColl rnd rb waterLevel time deltaTime k of
              None \<Rightarrow> None
            | Some (rb', k') \<Rightarrow>
                (case updateBodies s getColl rnd deltaTime waterLevel time rest k' of
                   None \<Rightarrow> None
                 | Some (rest', k'') \<Rightarrow> Some (rb' # rest', k'')))
      else (case updateBodies s getColl rnd deltaTime waterLevel time rest k of
              None \<Rightarrow> None
            | Some (rest', k'') \<Rightarrow> Some (rb # rest', k'')))"

definition update ::
  "settings \<Rightarrow> (nat \<Rightarrow> real) \<Rightarrow> world \<Rightarrow> jsnum \<Rightarrow> jsnum \<Rightarrow> jsnum \<Rightarrow> nat \<Rightarrow>
   (world \<times> nat) option" where
  "update s rnd w deltaTime waterLevel time k =
     (case updateBodies s (getCollider w) rnd deltaTime waterLevel time (bodies w) k of
        None \<Rightarrow> None
      | Some (bs, k') \<Rightarrow> Some (w\<lparr>bodies := bs\<rparr>, k'))"

text \<open>
  \<^verbatim>\<open>createWaterPhysics(world, params)\<close> returns the simulator object, whose functions are
  the ones above closed over \<open>settings\<close> and \<open>world\<close>. A call of a JavaScript function
  either returns or throws; the body of this one has no \<^verbatim>\<open>throw\<close> and checks nothing.
\<close>

datatype error = ConfigurationError

record simulator =
  sim_settings :: settings
  sim_world :: world

definition createWaterPhysics :: "world \<Rightarrow> params \<Rightarrow> error + simulator" where
  "createWaterPhysics w p =
     (let settings = mergeSettings waterPhysicsParams p
      in Inr \<lparr> sim_settings = settings, sim_world = w \<rparr>)"

text \<open>The call \<^verbatim>\<open>createWaterPhysics(world)\<close>: \<open>params\<close> is the empty object.\<close>

definition noParams :: params where
  "noParams =
     \<lparr> p_density = None, p_buoyancyMultiplier = None, p_linearDrag = None,
       p_quadraticDrag = None, p_waveHeight = None, p_waveFrequency = None,
       p_waveSpeed = None, p_waveDirection = None, p_surfaceTension = None,
       p_vorticity = None, p_damping = None, p_subSteps = None,
       p_maxBuoyancyPoints = None \<rparr>"

text \<open>A position, or a sample point, one of whose coordinates is NaN.\<close>

definition hasNaN :: "vec3 \<Rightarrow> bool" where
  "hasNaN p = (vx p = NaN \<or> vy p = NaN \<or> vz p = NaN)"

section \<open>A small scene\<close>

text \<open>
  Concrete values for the instances below: a world without bodies, a unit cube as
  collider 0, a dynamic body at the origin moving along x, and a random source that
  always draws \<open>1/2\<close> (the centre of the box).
\<close>

definition emptyWorld :: world where
  "emptyWorld = \<lparr> bodies = [], getCollider = (\<lambda>h. None) \<rparr>"

definition unitCube :: collider where
  "unitCube = \<lparr> colliderType = Cuboid,
                colliderHalfExtents = Vec3 (Num 0.5) (Num 0.5) (Num 0.5) \<rparr>"

definition cubeColliders :: "nat \<Rightarrow> collider option" where
  "cubeColliders h = (if h = 0 then Some unitCube else None)"

definition bodyAt :: "vec3 \<Rightarrow> rigidBody" where
  "bodyAt p = \<lparr> translation = p, linvel = Vec3 (Num 4) (Num 0) (Num 0),
                rotation = Quat (Num 0) (Num 0) (Num 0) (Num 1), collider0 = 0,
                bodyType = Dynamic, impulses = [] \<rparr>"

definition centre :: "nat \<Rightarrow> real" where
  "centre i = 1 / 2"

text \<open>
  The depth of the origin below the default waves at time 1, under the water level
  \<open>1/2\<close>.
\<close>

definition floatDepth :: real where
  "floatDepth = 1 / 2 + (sin 1 * (1 / 5) + sin (4 / 5) * (3 / 50) + sin (6 / 5) * (3 / 100))"

text \<open>A world of two unit cubes: one at a NaN position, one floating at the origin.\<close>

definition pond :: world where
  "pond = \<lparr> bodies = [bodyAt (Vec3 NaN (Num 0) (Num 0)),
                        bodyAt (Vec3 (Num 0) (Num 0) (Num 0))],
            getCollider = cubeColliders \<rparr>"

section \<open>The wave field in the words of the specification\<close>

text \<open>
  The specification gives every wave term the form
  \<open>amplitude * sin (dot (position_xz, direction) * frequency + time * speed)\<close> and names three
  terms: along \<open>waveDirection\<close>, along its perpendicular (rotated by 90 degrees), and along
  the normalized sum of the two. This definition follows those words, on reals; it is
  compared with \<open>getWaterHeight\<close> below.
\<close>

definition waveTerm :: "real \<Rightarrow> real \<Rightarrow> real \<Rightarrow> real \<times> real \<Rightarrow> real \<Rightarrow> real \<Rightarrow> real \<Rightarrow> real" where
  "waveTerm amplitude frequency speed direction x z time =
     amplitude * sin ((x * fst direction + z * snd direction) * frequency + time * speed)"

definition normalize2 :: "real \<times> real \<Rightarrow> real \<times> real" where
  "normalize2 d = (fst d / sqrt (fst d * fst d + snd d * snd d),
                   snd d / sqrt (fst d * fst d + snd d * snd d))"

definition specWaterHeight ::
  "real \<Rightarrow> real \<Rightarrow> real \<Rightarrow> real \<times> real \<Rightarrow> real \<Rightarrow> real \<Rightarrow> real \<Rightarrow> real" where
  "specWaterHeight h f sp w x z time =
     (let perpendicular = (- snd w, fst w);
          diagonal = normalize2 (fst w + fst perpendicular, snd w + snd perpendicular)
      in waveTerm h f sp w x z time
       + waveTerm (0.3 * h) (1.5 * f) (0.8 * sp) perpendicular x z time
       + waveTerm (0.15 * h) (2.3 * f) (1.2 * sp) diagonal x z time)"

section \<open>The loop count\<close>

text \<open>
  \<open>loopCount\<close> is the trip count of the counting loop: the test \<^verbatim>\<open>i < n\<close> holds exactly for
  the indices below it, and for every index when there is none.
\<close>

lemma loopCount_condition:
  "loopCount x = Some c \<Longrightarrow> js_lt (Num (real i)) x = (i < c)"
  "loopCount x = None \<Longrightarrow> js_lt (Num (real i)) x"
proof -
  have "(real i < n) = (i < nat \<lceil>n\<rceil>)" for n :: real
  proof -
    have "(real i < n) = (int i < \<lceil>n\<rceil>)"
      by (simp add: less_ceiling_iff)
    also have "\<dots> = (i < nat \<lceil>n\<rceil>)"
      by linarith
    finally show ?thesis .
  qed
  then show "loopCount x = Some c \<Longrightarrow> js_lt (Num (real i)) x = (i < c)"
    by (cases x) auto
  show "loopCount x = None \<Longrightarrow> js_lt (Num (real i)) x"
    by (cases x) simp_all
qed

section \<open>Finite arguments\<close>

text \<open>On finite numbers the operations are the ones of the reals.\<close>

lemma getWaterHeight_finite:
  assumes "waveHeight s = Num h" "waveFrequency s = Num f" "waveSpeed s = Num sp"
    "waveDirection s = Vec2 (Num wx) (Num wz)"
  shows "getWaterHeight s (Num x) (Num z) (Num t) =
     Num (sin ((x * wx + z * wz) * f + t * sp) * h
        + sin ((x * (- wz) + z * wx) * f * 1.5 + t * sp * 0.8) * h * 0.3
        + sin ((x * (wx + wz) + z * (wx - wz)) * f * 2.3 + t * sp * 1.2) * h * 0.15)"
  using assms by (simp add: getWaterHeight_def minus_jsnum_def)

lemma length3_finite:
  "length3 (Vec3 (Num a) (Num b) (Num c)) = Num (sqrt (a * a + b * b + c * c))"
proof -
  have "0 \<le> a * a + b * b + c * c" by simp
  then have "\<not> a * a + b * b + c * c < 0" by linarith
  then show ?thesis by (simp add: length3_def)
qed

section \<open>The wave height\<close>

lemma tertiary_gap:
  fixes w :: real
  assumes w: "0 < w" "w < 4 / 5"
    and s: "waveHeight s = Num 0.2" "waveFrequency s = Num 0.5" "waveSpeed s = Num 1"
      "waveDirection s = Vec2 (Num w) (Num w)"
  shows "getWaterHeight s (Num 1) (Num 0) (Num 0) \<noteq>
     Num (specWaterHeight 0.2 0.5 1 (w, w) 1 0 0)"
proof -
  have pos: "0 < sin (w * 2.3)"
  proof (rule sin_gt_zero_02)
    show "0 < w * 2.3" using w by simp
    show "w * 2.3 < 2" using w by simp
  qed
  have code: "getWaterHeight s (Num 1) (Num 0) (Num 0) =
      Num (sin (w * 0.5) * 0.2 + sin (- w * 0.75) * 0.06 + sin (w * 2.3) * 0.03)"
    by (simp add: getWaterHeight_finite [OF s])
  have spec: "specWaterHeight 0.2 0.5 1 (w, w) 1 0 0 =
      sin (w * 0.5) * 0.2 + sin (- w * 0.75) * 0.06"
    by (simp add: specWaterHeight_def waveTerm_def normalize2_def)
  show ?thesis unfolding code spec using pos by simp
qed

text \<open>
  C1: \<open>getWaterHeight\<close> is claimed to be the sum of the three wave terms of the
  specification, the third one along the normalized sum of \<open>waveDirection\<close> and its
  perpendicular. The code's third term uses the vector \<open>(waveX + waveZ, waveX - waveZ)\<close>
  instead, which is neither that sum nor of unit length: with the default parameters, at
  \<open>x = 1\<close>, \<open>z = 0\<close>, \<open>time = 0\<close>, the code's value differs from the specified one.
\<close>

theorem getWaterHeight_tertiary_divergence:
  "getWaterHeight waterPhysicsParams (Num 1) (Num 0) (Num 0) \<noteq>
   Num (specWaterHeight 0.2 0.5 1 (1 / sqrt 2, 1 / sqrt 2) 1 0 0)"
proof (rule tertiary_gap)
  show "0 < 1 / sqrt 2" by simp
  have "5 / 4 < sqrt 2" by (rule real_less_rsqrt) (simp add: power2_eq_square)
  then show "1 / sqrt 2 < 4 / 5" by (simp add: field_simps)
qed (simp_all add: waterPhysicsParams_def)

section \<open>Buoyancy at a point\<close>

text \<open>
  C2: with finite settings and arguments, and \<open>surfaceY = waterLevel + getWaterHeight (x, z,
  time)\<close>: a point above \<open>surfaceY\<close> gets zero force and zero depth; otherwise the depth is
  \<open>surfaceY - y\<close>, unclamped, and the force is \<open>(0, density * 9.81 * depth *
  buoyancyMultiplier, 0)\<close>; a point exactly at \<open>surfaceY\<close> gets depth 0 and the zero force;
  with density 1, multiplier 1 and \<open>waveHeight = 0\<close>, a point at \<open>waterLevel - 2\<close> has depth 2
  and force 19.62.
\<close>

theorem calculateBuoyancyForce_cases:
  assumes s: "waveHeight s = Num h" "waveFrequency s = Num f" "waveSpeed s = Num sp"
      "waveDirection s = Vec2 (Num wx) (Num wz)"
    and d: "density s = Num rho" "buoyancyMultiplier s = Num m"
  shows "\<exists>g. getWaterHeight s (Num px) (Num pz) (Num t) = Num g \<and>
     calculateBuoyancyForce s (Vec3 (Num px) (Num py) (Num pz)) (Num wl) (Num t) =
       (if wl + g < py then (zero3, Num 0)
        else (Vec3 (Num 0) (Num (rho * 9.81 * ((wl + g) - py) * m)) (Num 0),
              Num ((wl + g) - py))) \<and>
     calculateBuoyancyForce s (Vec3 (Num px) (Num (wl + g)) (Num pz)) (Num wl) (Num t) =
       (zero3, Num 0) \<and>
     (rho = 1 \<and> m = 1 \<and> h = 0 \<and> py = wl - 2 \<longrightarrow>
        calculateBuoyancyForce s (Vec3 (Num px) (Num py) (Num pz)) (Num wl) (Num t) =
          (Vec3 (Num 0) (Num 19.62) (Num 0), Num 2))"
proof -
  obtain g where g: "getWaterHeight s (Num px) (Num pz) (Num t) = Num g"
    and g0: "h = 0 \<Longrightarrow> g = 0"
    using getWaterHeight_finite [OF s, of px pz t] by simp
  have main: "calculateBuoyancyForce s (Vec3 (Num px) (Num y) (Num pz)) (Num wl) (Num t) =
       (if wl + g < y then (zero3, Num 0)
        else (Vec3 (Num 0) (Num (rho * 9.81 * ((wl + g) - y) * m)) (Num 0),
              Num ((wl + g) - y)))" for y
    by (simp add: calculateBuoyancyForce_def actualWaterHeight_def g d js_gt_def zero3_def
        minus_jsnum_def)
  have boundary: "calculateBuoyancyForce s (Vec3 (Num px) (Num (wl + g)) (Num pz)) (Num wl) (Num t) =
       (zero3, Num 0)"
    unfolding main by (simp add: zero3_def)
  have scenario: "calculateBuoyancyForce s (Vec3 (Num px) (Num py) (Num pz)) (Num wl) (Num t) =
          (Vec3 (Num 0) (Num 19.62) (Num 0), Num 2)"
    if "rho = 1 \<and> m = 1 \<and> h = 0 \<and> py = wl - 2"
    unfolding main using that g0 by simp
  show ?thesis using g main boundary scenario by blast
qed

theorem calculateBuoyancyForce_cases_witness:
  "waveHeight (waterPhysicsParams\<lparr>waveHeight := Num 0, buoyancyMultiplier := Num 1\<rparr>) = Num 0 \<and>
   calculateBuoyancyForce (waterPhysicsParams\<lparr>waveHeight := Num 0, buoyancyMultiplier := Num 1\<rparr>)
     (Vec3 (Num 3) (Num (- 2)) (Num 4)) (Num 0) (Num 7) = (Vec3 (Num 0) (Num 19.62) (Num 0), Num 2)"
  using calculateBuoyancyForce_cases [of "waterPhysicsParams\<lparr>waveHeight := Num 0, buoyancyMultiplier := Num 1\<rparr>"
      0 "0.5" 1 "1 / sqrt 2" "1 / sqrt 2" 1 1 3 4 7 "- 2" 0]
  by (auto simp: waterPhysicsParams_def)

section \<open>Drag\<close>

text \<open>
  C3: with finite velocity, depth and non-negative drag coefficients, the drag force is
  the zero vector when the depth is at most 0 or the speed is below 0.001; otherwise it is
  the unit vector of the velocity scaled by minus \<open>(linearDrag * speed + quadraticDrag *
  speed * speed) * depth\<close>, a vector of exactly that length. With \<open>linearDrag = 0.5\<close>,
  \<open>quadraticDrag = 0.05\<close>, speed 4 and depth 1 the length is 2.8.
\<close>

theorem calculateDragForce_cases:
  assumes s: "linearDrag s = Num ld" "quadraticDrag s = Num qd"
    and nonneg: "0 \<le> ld" "0 \<le> qd"
  shows "(let v = Vec3 (Num a) (Num b) (Num c);
              speed = sqrt (a * a + b * b + c * c);
              magnitude = (ld * speed + qd * speed * speed) * d
          in calculateDragForce s v (Num d) =
               (if d \<le> 0 \<or> speed < 0.001 then zero3
                else Vec3 (Num (- magnitude * (a / speed))) (Num (- magnitude * (b / speed)))
                       (Num (- magnitude * (c / speed)))) \<and>
             length3 (calculateDragForce s v (Num d)) =
               (if d \<le> 0 \<or> speed < 0.001 then Num 0 else Num magnitude) \<and>
             (ld = 0.5 \<and> qd = 0.05 \<and> speed = 4 \<and> d = 1 \<longrightarrow>
                length3 (calculateDragForce s v (Num d)) = Num 2.8))"
proof -
  define speed where "speed = sqrt (a * a + b * b + c * c)"
  define magnitude where "magnitude = (ld * speed + qd * speed * speed) * d"
  have sq: "speed * speed = a * a + b * b + c * c"
    unfolding speed_def by simp
  have force: "calculateDragForce s (Vec3 (Num a) (Num b) (Num c)) (Num d) =
       (if d \<le> 0 \<or> speed < 0.001 then zero3
        else Vec3 (Num (- magnitude * (a / speed))) (Num (- magnitude * (b / speed)))
               (Num (- magnitude * (c / speed))))"
    by (simp add: calculateDragForce_def length3_finite s zero3_def Let_def normalize_def
        divideScalar_def multiplyScalar_def speed_def [symmetric] magnitude_def)
  have len: "length3 (calculateDragForce s (Vec3 (Num a) (Num b) (Num c)) (Num d)) =
       (if d \<le> 0 \<or> speed < 0.001 then Num 0 else Num magnitude)"
  proof (cases "d \<le> 0 \<or> speed < 0.001")
    case True
    then show ?thesis by (simp add: force zero3_def length3_finite)
  next
    case False
    then have pos: "0 < speed" "0 < d" by auto
    then have m0: "0 \<le> magnitude" using nonneg by (simp add: magnitude_def)
    have "(- magnitude * (a / speed)) * (- magnitude * (a / speed))
        + (- magnitude * (b / speed)) * (- magnitude * (b / speed))
        + (- magnitude * (c / speed)) * (- magnitude * (c / speed))
        = magnitude * magnitude * ((a * a + b * b + c * c) / (speed * speed))"
      by (simp add: add_divide_distrib distrib_left mult_ac)
    also have "\<dots> = magnitude * magnitude"
      unfolding sq [symmetric] using pos by simp
    finally have "sqrt ((- magnitude * (a / speed)) * (- magnitude * (a / speed))
        + (- magnitude * (b / speed)) * (- magnitude * (b / speed))
        + (- magnitude * (c / speed)) * (- magnitude * (c / speed))) = magnitude"
      using m0 by simp
    with False show ?thesis by (simp only: force length3_finite if_False)
  qed
  have scen: "magnitude = 2.8" if "ld = 0.5 \<and> qd = 0.05 \<and> speed = 4 \<and> d = 1"
    using that by (simp add: magnitude_def)
  show ?thesis
    unfolding Let_def speed_def [symmetric] magnitude_def [symmetric]
    using force len scen by auto
qed


theorem calculateDragForce_cases_witness:
  "linearDrag waterPhysicsParams = Num 0.5 \<and> quadraticDrag waterPhysicsParams = Num 0.05 \<and>
   calculateDragForce waterPhysicsParams (Vec3 (Num 4) (Num 0) (Num 0)) (Num 1) =
     Vec3 (Num (- 2.8)) (Num 0) (Num 0) \<and>
   length3 (calculateDragForce waterPhysicsParams (Vec3 (Num 4) (Num 0) (Num 0)) (Num 1)) =
     Num 2.8"
proof -
  have sqrt16: "sqrt 16 = 4"
    using real_sqrt_abs2 [of 4] by simp
  have h: "linearDrag waterPhysicsParams = Num 0.5" "quadraticDrag waterPhysicsParams = Num 0.05"
    by (simp_all add: waterPhysicsParams_def)
  show ?thesis
    using calculateDragForce_cases [OF h, of 4 0 0 1] h
    by (auto simp: Let_def sqrt16)
qed

section \<open>NaN\<close>

text \<open>NaN absorbs every operation and fails every comparison, on either side.\<close>

lemma add_NaN_right [simp]: "x + NaN = NaN"
  by (cases x) simp_all

lemma mul_NaN_right [simp]: "x * NaN = NaN"
  by (cases x) simp_all

lemma js_lt_NaN_right [simp]: "js_lt x NaN = False"
  by (cases x) simp_all

lemma js_le_NaN_right [simp]: "js_le x NaN = False"
  by (cases x) simp_all

lemma js_div_NaN_right [simp]: "js_div x NaN = NaN"
  by (cases x) simp_all

lemma sub_NaN [simp]: "x - NaN = NaN" "NaN - x = NaN"
  by (simp_all add: minus_jsnum_def)

lemma js_gt_simps [simp]:
  "js_gt (Num a) (Num b) = (b < a)" "js_gt NaN x = False" "js_gt x NaN = False"
  by (simp_all add: js_gt_def)

lemma calculateDragForce_NaN:
  "\<not> js_gt (lengthSq (calculateDragForce s v NaN)) (Num 0)"
  by (simp add: calculateDragForce_def Let_def lengthSq_def multiplyScalar_def)

lemma applyAccumulatedForces_none:
  "\<not> js_gt (lengthSq tb) (Num 0) \<Longrightarrow> \<not> js_gt (lengthSq td) (Num 0) \<Longrightarrow>
   applyAccumulatedForces rb tb td dt = rb"
  by (simp add: applyAccumulatedForces_def)

lemma applyWaveForces_NaN: "applyWaveForces s rb he NaN t dt = rb"
  by (simp add: applyWaveForces_def)

lemma sampleTotals_empty: "sampleTotals s wl t [] = (Vec3 (Num 0) (Num 0) (Num 0), NaN)"
  by (simp add: sampleTotals_def)

lemma loopCount_min_zero: "loopCount (js_min (Num 0) y) = Some 0"
  by (cases y) simp_all

lemma zero_maxBuoyancyPoints:
  "maxBuoyancyPoints s = Num 0 \<Longrightarrow> loopCount (numPoints s he) = Some 0"
  by (simp add: numPoints_def loopCount_min_zero)

lemma applyWaterPhysics_no_points:
  assumes "getColl (collider0 rb) = Some c"
    and "loopCount (numPoints s (halfExtentsOf c)) = Some 0"
  shows "applyWaterPhysics s getColl rnd rb waterLevel time deltaTime k = Some (rb, k)"
proof -
  have "\<not> js_gt (lengthSq (Vec3 (Num 0) (Num 0) (Num 0))) (Num 0)"
    by (simp add: lengthSq_def)
  then have "applyAccumulatedForces rb (Vec3 (Num 0) (Num 0) (Num 0))
      (calculateDragForce s (linvel rb) NaN) deltaTime = rb"
    using calculateDragForce_NaN by (rule applyAccumulatedForces_none)
  then show ?thesis
    using assms
    by (simp add: applyWaterPhysics_def Let_def sampleTotals_empty applyWaveForces_NaN)
qed

section \<open>A body without sample points\<close>

text \<open>
  C4: a body whose sampling loop makes no point, in particular whenever
  \<open>maxBuoyancyPoints = 0\<close>, gets no impulse from the per-tick update, and the call returns:
  the average over the empty sample is \<open>0 / 0 = NaN\<close>, which fails every comparison that
  guards an impulse.
\<close>

theorem empty_sample_no_impulse:
  assumes "getColl (collider0 rb) = Some c"
    and "maxBuoyancyPoints s = Num 0 \<or> loopCount (numPoints s (halfExtentsOf c)) = Some 0"
  shows "applyWaterPhysics s getColl rnd rb waterLevel time deltaTime k = Some (rb, k) \<and>
         updateBodies s getColl rnd deltaTime waterLevel time [rb] k = Some ([rb], k)"
proof -
  have "loopCount (numPoints s (halfExtentsOf c)) = Some 0"
    using assms(2) zero_maxBuoyancyPoints by blast
  then have "applyWaterPhysics s getColl rnd rb waterLevel time deltaTime k = Some (rb, k)"
    using assms(1) by (rule applyWaterPhysics_no_points [rotated])
  then show ?thesis by simp
qed

theorem empty_sample_no_impulse_witness:
  "cubeColliders (collider0 (bodyAt (Vec3 (Num 0) (Num (- 1)) (Num 0)))) = Some unitCube \<and>
   maxBuoyancyPoints (waterPhysicsParams\<lparr>maxBuoyancyPoints := Num 0\<rparr>) = Num 0 \<and>
   applyWaterPhysics (waterPhysicsParams\<lparr>maxBuoyancyPoints := Num 0\<rparr>) cubeColliders centre
     (bodyAt (Vec3 (Num 0) (Num (- 1)) (Num 0))) (Num 0) (Num 1) (Num (1 / 60)) 0 =
     Some (bodyAt (Vec3 (Num 0) (Num (- 1)) (Num 0)), 0)"
proof -
  have c: "cubeColliders (collider0 (bodyAt (Vec3 (Num 0) (Num (- 1)) (Num 0)))) = Some unitCube"
    by (simp add: cubeColliders_def bodyAt_def)
  have m: "maxBuoyancyPoints (waterPhysicsParams\<lparr>maxBuoyancyPoints := Num 0\<rparr>) = Num 0"
    by simp
  show ?thesis
    using empty_sample_no_impulse [where getColl = cubeColliders and c = unitCube
        and rb = "bodyAt (Vec3 (Num 0) (Num (- 1)) (Num 0))"
        and s = "waterPhysicsParams\<lparr>maxBuoyancyPoints := Num 0\<rparr>" and rnd = centre
        and waterLevel = "Num 0" and time = "Num 1" and deltaTime = "Num (1 / 60)" and k = 0]
      c m
    by simp
qed

section \<open>A body far above the water\<close>

text \<open>
  C5: a body with \<open>position.y > waterLevel + 5\<close> comes back from the per-tick update as it
  went in, with no impulse applied and no random number drawn, for every water level,
  time and time step.
\<close>

theorem far_above_untouched:
  assumes "js_gt (vy (translation rb)) (waterLevel + Num 5)"
  shows "applyWaterPhysics s getColl rnd rb waterLevel time deltaTime k = Some (rb, k) \<and>
         updateBodies s getColl rnd deltaTime waterLevel time [rb] k = Some ([rb], k)"
  using assms by (simp add: applyWaterPhysics_def)

theorem far_above_untouched_witness:
  "js_gt (vy (translation (bodyAt (Vec3 (Num 0) (Num 6) (Num 0))))) (Num 0 + Num 5) \<and>
   applyWaterPhysics waterPhysicsParams cubeColliders centre
     (bodyAt (Vec3 (Num 0) (Num 6) (Num 0))) (Num 0) (Num 1) (Num (1 / 60)) 0 =
     Some (bodyAt (Vec3 (Num 0) (Num 6) (Num 0)), 0)"
proof -
  have h: "js_gt (vy (translation (bodyAt (Vec3 (Num 0) (Num 6) (Num 0))))) (Num 0 + Num 5)"
    by (simp add: bodyAt_def js_gt_def)
  show ?thesis
    using far_above_untouched [OF h, of waterPhysicsParams cubeColliders centre "Num 1"
        "Num (1 / 60)" 0] h
    by simp
qed

section \<open>Construction\<close>

text \<open>
  C6, as the code has it: \<open>createWaterPhysics\<close> validates nothing. For every world and every
  parameter object the call returns the simulator over that world, and each of its
  thirteen settings is the value the parameter object holds for that key, or the module's
  default when it holds none; a zero \<open>waveDirection\<close>, a negative \<open>density\<close>, \<open>subSteps\<close> or
  \<open>maxBuoyancyPoints\<close> are stored as given.
\<close>

theorem createWaterPhysics_never_rejects:
  "createWaterPhysics w p =
     Inr \<lparr> sim_settings =
             \<lparr> density = (case p_density p of None \<Rightarrow> Num 1.0 | Some v \<Rightarrow> v),
               buoyancyMultiplier =
                 (case p_buoyancyMultiplier p of None \<Rightarrow> Num 1.2 | Some v \<Rightarrow> v),
               linearDrag = (case p_linearDrag p of None \<Rightarrow> Num 0.5 | Some v \<Rightarrow> v),
               quadraticDrag = (case p_quadraticDrag p of None \<Rightarrow> Num 0.05 | Some v \<Rightarrow> v),
               waveHeight = (case p_waveHeight p of None \<Rightarrow> Num 0.2 | Some v \<Rightarrow> v),
               waveFrequency = (case p_waveFrequency p of None \<Rightarrow> Num 0.5 | Some v \<Rightarrow> v),
               waveSpeed = (case p_waveSpeed p of None \<Rightarrow> Num 1.0 | Some v \<Rightarrow> v),
               waveDirection =
                 (case p_waveDirection p of
                    None \<Rightarrow> Vec2 (Num (1 / sqrt 2)) (Num (1 / sqrt 2))
                  | Some v \<Rightarrow> v),
               surfaceTension =
                 (case p_surfaceTension p of None \<Rightarrow> Num 0.07 | Some v \<Rightarrow> v),
               vorticity = (case p_vorticity p of None \<Rightarrow> Num 0.1 | Some v \<Rightarrow> v),
               damping = (case p_damping p of None \<Rightarrow> Num 0.03 | Some v \<Rightarrow> v),
               subSteps = (case p_subSteps p of None \<Rightarrow> Num 3 | Some v \<Rightarrow> v),
               maxBuoyancyPoints =
                 (case p_maxBuoyancyPoints p of None \<Rightarrow> Num 8 | Some v \<Rightarrow> v) \<rparr>,
           sim_world = w \<rparr>"
  by (simp add: createWaterPhysics_def mergeSettings_def override_def waterPhysicsParams_def
      split: option.splits)

text \<open>
  C6 as claimed fails: none of the four invalid configurations is rejected.
\<close>

theorem createWaterPhysics_accepts_invalid:
  "\<not> isl (createWaterPhysics emptyWorld (noParams\<lparr>p_waveDirection := Some (Vec2 (Num 0) (Num 0))\<rparr>)) \<and>
   \<not> isl (createWaterPhysics emptyWorld (noParams\<lparr>p_density := Some (Num (- 1))\<rparr>)) \<and>
   \<not> isl (createWaterPhysics emptyWorld (noParams\<lparr>p_subSteps := Some (Num (- 1))\<rparr>)) \<and>
   \<not> isl (createWaterPhysics emptyWorld (noParams\<lparr>p_maxBuoyancyPoints := Some (Num (- 1))\<rparr>))"
  by (simp add: createWaterPhysics_def)

section \<open>The water level\<close>

lemma add_finite_shift: "Num w2 + g = (Num w1 + g) + Num (w2 - w1)"
  by (cases g) simp_all

text \<open>
  C9, as the code has it: the water level is an argument of the per-tick update, not of
  \<open>getWaterHeight\<close>, whose result therefore does not move with it. What moves is the surface
  height that buoyancy uses, \<open>waterLevel + getWaterHeight (x, z, time)\<close>: changing the level
  from \<open>w1\<close> to \<open>w2\<close> shifts it by exactly \<open>w2 - w1\<close>.
\<close>

theorem waterLevel_only_offsets_surface:
  "actualWaterHeight s p (Num w1) time = Num w1 + getWaterHeight s (vx p) (vz p) time \<and>
   actualWaterHeight s p (Num w2) time = actualWaterHeight s p (Num w1) time + Num (w2 - w1)"
  by (simp add: actualWaterHeight_def add_finite_shift [of w2 _ w1])

text \<open>
  C9 as claimed fails: after the level goes from 0 to 1, the same query of
  \<open>getWaterHeight\<close> does not return the former result plus 1.
\<close>

theorem getWaterHeight_ignores_waterLevel:
  "getWaterHeight waterPhysicsParams (Num 0) (Num 0) (Num 0) \<noteq>
   getWaterHeight waterPhysicsParams (Num 0) (Num 0) (Num 0) + (Num 1 - Num 0)"
  by (simp add: getWaterHeight_def waterPhysicsParams_def minus_jsnum_def)

section \<open>Rotation\<close>

text \<open>
  C10: two calls of \<open>applyWaterPhysics\<close> that differ only in the rotation of the body
  (same position, velocity, collider, earlier impulses, water level, time, time step and
  random draws) apply the same impulses and draw the same random numbers: the result for
  the rotated body is the result for the other one, with the rotation replaced.
\<close>

theorem rotation_unused:
  "applyWaterPhysics s getColl rnd (rb\<lparr>rotation := q\<rparr>) waterLevel time deltaTime k =
   map_option (\<lambda>(rb', k'). (rb'\<lparr>rotation := q\<rparr>, k'))
     (applyWaterPhysics s getColl rnd rb waterLevel time deltaTime k)"
  by (simp add: applyWaterPhysics_def applyAccumulatedForces_def applyWaveForces_def
      applyImpulse_def Let_def split: option.splits)

section \<open>The floating cube\<close>

text \<open>
  One tick of the unit cube at the origin, with the default settings, water level \<open>1/2\<close>,
  time 1 and time step \<open>1/10\<close>: one sample point at the centre, submerged by \<open>floatDepth\<close>.
\<close>

lemma floatDepth_bounds: "0 < floatDepth" "floatDepth < 1"
proof -
  have "- 1 \<le> sin (1::real)" "- 1 \<le> sin (4 / 5 :: real)" "- 1 \<le> sin (6 / 5 :: real)"
       "sin (1::real) \<le> 1" "sin (4 / 5 :: real) \<le> 1" "sin (6 / 5 :: real) \<le> 1"
    by simp_all
  then show "0 < floatDepth" "floatDepth < 1"
    unfolding floatDepth_def by linarith+
qed

lemma defaults:
  "density waterPhysicsParams = Num 1" "buoyancyMultiplier waterPhysicsParams = Num 1.2"
  "linearDrag waterPhysicsParams = Num 0.5" "quadraticDrag waterPhysicsParams = Num 0.05"
  "waveHeight waterPhysicsParams = Num 0.2" "waveSpeed waterPhysicsParams = Num 1"
  "waveDirection waterPhysicsParams = Vec2 (Num (1 / sqrt 2)) (Num (1 / sqrt 2))"
  "maxBuoyancyPoints waterPhysicsParams = Num 8"
  by (simp_all add: waterPhysicsParams_def)

lemma unitCube_halfExtents: "halfExtentsOf unitCube = Vec3 (Num 0.5) (Num 0.5) (Num 0.5)"
  by (simp add: halfExtentsOf_def unitCube_def)

lemma unitCube_count:
  "loopCount (numPoints waterPhysicsParams (halfExtentsOf unitCube)) = Some (Suc 0)"
  by (simp add: numPoints_def unitCube_halfExtents defaults)

lemma one_point_at_centre:
  "sampleBuoyancyPoints (Suc 0) centre k (Vec3 (Num 0) (Num 0) (Num 0))
     (Vec3 (Num 0.5) (Num 0.5) (Num 0.5)) = [Vec3 (Num 0) (Num 0) (Num 0)]"
  by (simp add: centre_def minus_jsnum_def)

lemma floating_totals:
  "sampleTotals waterPhysicsParams (Num 0.5) (Num 1) [Vec3 (Num 0) (Num 0) (Num 0)] =
     (Vec3 (Num 0) (Num (1 * 9.81 * floatDepth * 1.2)) (Num 0), Num floatDepth)"
proof -
  have "getWaterHeight waterPhysicsParams (Num 0) (Num 0) (Num 1) = Num (floatDepth - 1 / 2)"
    by (simp add: getWaterHeight_def waterPhysicsParams_def floatDepth_def minus_jsnum_def)
  then have "calculateBuoyancyForce waterPhysicsParams (Vec3 (Num 0) (Num 0) (Num 0))
      (Num 0.5) (Num 1) =
      (Vec3 (Num 0) (Num (1 * 9.81 * floatDepth * 1.2)) (Num 0), Num floatDepth)"
    using floatDepth_bounds
    by (simp add: calculateBuoyancyForce_def actualWaterHeight_def minus_jsnum_def defaults)
  then show ?thesis by (simp add: sampleTotals_def v3_add_def)
qed

lemma floating_drag:
  "calculateDragForce waterPhysicsParams (Vec3 (Num 4) (Num 0) (Num 0)) (Num floatDepth) =
     Vec3 (Num (- (2.8 * floatDepth))) (Num 0) (Num 0)"
proof -
  have "sqrt 16 = 4"
    using real_sqrt_abs2 [of 4] by simp
  then show ?thesis
    using floatDepth_bounds
    by (simp add: calculateDragForce_def length3_finite normalize_def divideScalar_def
        multiplyScalar_def defaults Let_def)
qed

lemma floating_accumulated:
  "applyAccumulatedForces (bodyAt p)
     (Vec3 (Num 0) (Num (1 * 9.81 * floatDepth * 1.2)) (Num 0))
     (Vec3 (Num (- (2.8 * floatDepth))) (Num 0) (Num 0)) (Num 0.1) =
   (bodyAt p)\<lparr>impulses :=
      [Vec3 (Num 0) (Num (1 * 9.81 * floatDepth * 1.2 * 0.1)) (Num 0),
       Vec3 (Num (- (2.8 * floatDepth) * 0.1)) (Num 0) (Num 0)]\<rparr>"
  using floatDepth_bounds
  by (simp add: applyAccumulatedForces_def lengthSq_def applyImpulse_def bodyAt_def)

lemma floating_tick:
  "applyWaterPhysics waterPhysicsParams cubeColliders centre
     (bodyAt (Vec3 (Num 0) (Num 0) (Num 0))) (Num 0.5) (Num 1) (Num 0.1) k =
   Some ((bodyAt (Vec3 (Num 0) (Num 0) (Num 0)))\<lparr>impulses :=
      [Vec3 (Num 0) (Num (1 * 9.81 * floatDepth * 1.2 * 0.1)) (Num 0),
       Vec3 (Num (- (2.8 * floatDepth) * 0.1)) (Num 0) (Num 0),
       Vec3 (Num (1 / sqrt 2 * (0.2 * 0.5 * sin 1) * 0.1)) (Num 0)
         (Num (1 / sqrt 2 * (0.2 * 0.5 * sin 1) * 0.1))]\<rparr>, k + 3)"
proof -
  have b: "translation (bodyAt (Vec3 (Num 0) (Num 0) (Num 0))) = Vec3 (Num 0) (Num 0) (Num 0)"
    "linvel (bodyAt (Vec3 (Num 0) (Num 0) (Num 0))) = Vec3 (Num 4) (Num 0) (Num 0)"
    "cubeColliders (collider0 (bodyAt (Vec3 (Num 0) (Num 0) (Num 0)))) = Some unitCube"
    by (simp_all add: bodyAt_def cubeColliders_def)
  show ?thesis
    using floatDepth_bounds unitCube_count one_point_at_centre [of k] floating_totals
      floating_drag floating_accumulated [of "Vec3 (Num 0) (Num 0) (Num 0)"]
    by (simp add: applyWaterPhysics_def Let_def b unitCube_halfExtents applyWaveForces_def
        applyImpulse_def multiplyScalar_def defaults)
qed

section \<open>The surge at the surface\<close>

text \<open>
  C7: for a body that the per-tick update processes (not far above the water, collider
  found, sampling loop finished after \<open>n\<close> points), with finite wave settings, time and
  time step: after the buoyancy and drag impulses, one more impulse is applied exactly
  when \<open>0 < averageSubmergedDepth < 2 * halfExtents.y\<close>; it is
  \<open>waveDirection * (0.5 * waveHeight * sin (time * waveSpeed)) * deltaTime\<close> in x and z and 0
  in y. Otherwise nothing more is applied.
\<close>

theorem surge_impulse:
  assumes s: "waveHeight s = Num h" "waveSpeed s = Num sp"
      "waveDirection s = Vec2 (Num wx) (Num wz)"
    and processed: "\<not> js_gt (vy (translation rb)) (waterLevel + Num 5)"
      "getColl (collider0 rb) = Some c"
      "loopCount (numPoints s (halfExtentsOf c)) = Some n"
  shows "applyWaterPhysics s getColl rnd rb waterLevel (Num t) (Num dt) k =
     (let halfExtents = halfExtentsOf c;
          totals = sampleTotals s waterLevel (Num t)
                     (sampleBuoyancyPoints n rnd k (translation rb) halfExtents);
          averageSubmergedDepth = snd totals;
          rb1 = applyAccumulatedForces rb (fst totals)
                  (calculateDragForce s (linvel rb) averageSubmergedDepth) (Num dt);
          surge = Vec3 (Num (wx * (h * 0.5 * sin (t * sp)) * dt)) (Num 0)
                    (Num (wz * (h * 0.5 * sin (t * sp)) * dt))
      in Some (rb1\<lparr>impulses := impulses rb1 @
                 (if js_gt averageSubmergedDepth (Num 0) \<and>
                     js_lt averageSubmergedDepth (vy halfExtents * Num 2)
                  then [surge] else [])\<rparr>,
               k + 3 * n))"
  using assms
  by (simp add: applyWaterPhysics_def applyWaveForces_def applyImpulse_def
      multiplyScalar_def Let_def)

theorem surge_impulse_witness:
  "0 < floatDepth \<and> floatDepth < 1 \<and>
   loopCount (numPoints waterPhysicsParams (halfExtentsOf unitCube)) = Some 1 \<and>
   applyWaterPhysics waterPhysicsParams cubeColliders centre
     (bodyAt (Vec3 (Num 0) (Num 0) (Num 0))) (Num 0.5) (Num 1) (Num 0.1) 0 =
   Some ((bodyAt (Vec3 (Num 0) (Num 0) (Num 0)))\<lparr>impulses :=
      [Vec3 (Num 0) (Num (1 * 9.81 * floatDepth * 1.2 * 0.1)) (Num 0),
       Vec3 (Num (- (2.8 * floatDepth) * 0.1)) (Num 0) (Num 0),
       Vec3 (Num (1 / sqrt 2 * (0.2 * 0.5 * sin 1) * 0.1)) (Num 0)
         (Num (1 / sqrt 2 * (0.2 * 0.5 * sin 1) * 0.1))]\<rparr>, 3)"
proof -
  let ?rb = "bodyAt (Vec3 (Num 0) (Num 0) (Num 0))"
  have b: "translation ?rb = Vec3 (Num 0) (Num 0) (Num 0)"
    "linvel ?rb = Vec3 (Num 4) (Num 0) (Num 0)"
    "cubeColliders (collider0 ?rb) = Some unitCube"
    "\<not> js_gt (vy (translation ?rb)) (Num 0.5 + Num 5)"
    by (simp_all add: bodyAt_def cubeColliders_def)
  show ?thesis
    using floatDepth_bounds defaults b unitCube_count one_point_at_centre [of 0]
      floating_totals floating_drag floating_accumulated [of "Vec3 (Num 0) (Num 0) (Num 0)"]
      surge_impulse [where s = waterPhysicsParams and h = "0.2" and sp = 1
        and wx = "1 / sqrt 2" and wz = "1 / sqrt 2" and getColl = cubeColliders
        and c = unitCube and rb = "?rb" and waterLevel = "Num 0.5" and n = "Suc 0"
        and rnd = centre and t = 1 and dt = "0.1" and k = 0]
    by (simp add: Let_def unitCube_halfExtents)
qed

section \<open>Malformed bodies\<close>

lemma getWaterHeight_NaN: "getWaterHeight s NaN z t = NaN" "getWaterHeight s x NaN t = NaN"
  by (simp_all add: getWaterHeight_def)

lemma calculateBuoyancyForce_NaN:
  assumes "hasNaN p"
  shows "calculateBuoyancyForce s p wl t = (Vec3 (Num 0) NaN (Num 0), NaN)"
  using assms
  by (auto simp: hasNaN_def calculateBuoyancyForce_def actualWaterHeight_def
      getWaterHeight_NaN Let_def)

lemma sampleBuoyancyPoints_NaN:
  assumes "hasNaN position"
  shows "\<forall>p \<in> set (sampleBuoyancyPoints n rnd k position he). hasNaN p"
  using assms by (induction n arbitrary: k) (auto simp: hasNaN_def Let_def)

lemma accumulate_NaN_kept:
  assumes "vy (fst acc) = NaN" "snd acc = NaN"
  shows "vy (fst (accumulate s wl t ps acc)) = NaN \<and> snd (accumulate s wl t ps acc) = NaN"
  using assms
  by (induction ps arbitrary: acc) (simp_all add: v3_add_def split: prod.splits)

lemma accumulate_NaN:
  assumes "ps \<noteq> []" "\<forall>p \<in> set ps. hasNaN p"
  shows "vy (fst (accumulate s wl t ps acc)) = NaN \<and> snd (accumulate s wl t ps acc) = NaN"
proof (cases ps)
  case Nil
  with assms show ?thesis by simp
next
  case (Cons p rest)
  then have "hasNaN p" using assms by simp
  then show ?thesis
    unfolding Cons
    by (simp add: calculateBuoyancyForce_NaN accumulate_NaN_kept v3_add_def)
qed

lemma sampleTotals_NaN:
  assumes "\<forall>p \<in> set ps. hasNaN p"
  shows "snd (sampleTotals s wl t ps) = NaN \<and>
         \<not> js_gt (lengthSq (fst (sampleTotals s wl t ps))) (Num 0)"
proof (cases "ps = []")
  case True
  then show ?thesis by (simp add: sampleTotals_empty lengthSq_def)
next
  case False
  from accumulate_NaN [OF False assms]
  show ?thesis by (simp add: sampleTotals_def Let_def lengthSq_def)
qed

lemma no_force_no_impulse:
  assumes "snd totals = NaN" and "\<not> js_gt (lengthSq (fst totals)) (Num 0)"
  shows "applyWaveForces s
           (applyAccumulatedForces rb (fst totals) (calculateDragForce s v (snd totals)) dt)
           he (snd totals) t dt = rb"
  using assms
  by (simp add: applyWaveForces_NaN applyAccumulatedForces_none calculateDragForce_NaN)

lemma loopCount_finite: "x \<noteq> PInf \<Longrightarrow> \<exists>n. loopCount x = Some n"
  by (cases x) simp_all

lemma js_min_not_PInf: "a \<noteq> PInf \<Longrightarrow> js_min a b \<noteq> PInf"
  by (cases a; cases b) simp_all

lemma numPoints_loopCount:
  "maxBuoyancyPoints s \<noteq> PInf \<Longrightarrow> \<exists>n. loopCount (numPoints s he) = Some n"
  by (simp add: numPoints_def loopCount_finite js_min_not_PInf)

lemma applyWaterPhysics_total:
  assumes "maxBuoyancyPoints s \<noteq> PInf"
  shows "\<exists>rb' k'. applyWaterPhysics s getColl rnd rb wl t dt k = Some (rb', k')"
proof (cases "getColl (collider0 rb)")
  case None
  then show ?thesis by (simp add: applyWaterPhysics_def Let_def)
next
  case (Some c)
  obtain n where "loopCount (numPoints s (halfExtentsOf c)) = Some n"
    using numPoints_loopCount [OF assms] by blast
  with Some show ?thesis by (simp add: applyWaterPhysics_def Let_def)
qed

lemma applyWaterPhysics_malformed:
  assumes "hasNaN (translation rb) \<or> getColl (collider0 rb) = None"
    and "maxBuoyancyPoints s \<noteq> PInf"
  shows "\<exists>k'. applyWaterPhysics s getColl rnd rb wl t dt k = Some (rb, k')"
proof (cases "getColl (collider0 rb)")
  case None
  then show ?thesis by (simp add: applyWaterPhysics_def Let_def)
next
  case (Some c)
  with assms have bad: "hasNaN (translation rb)" by simp
  obtain n where n: "loopCount (numPoints s (halfExtentsOf c)) = Some n"
    using numPoints_loopCount [OF assms(2)] by blast
  let ?totals = "sampleTotals s wl t
      (sampleBuoyancyPoints n rnd k (translation rb) (halfExtentsOf c))"
  have "snd ?totals = NaN \<and> \<not> js_gt (lengthSq (fst ?totals)) (Num 0)"
    by (rule sampleTotals_NaN) (rule sampleBuoyancyPoints_NaN [OF bad])
  then have "applyWaveForces s
           (applyAccumulatedForces rb (fst ?totals)
              (calculateDragForce s (linvel rb) (snd ?totals)) dt)
           (halfExtentsOf c) (snd ?totals) t dt = rb"
    using no_force_no_impulse [of ?totals] by blast
  then show ?thesis
    using Some n by (simp add: applyWaterPhysics_def Let_def)
qed

lemma updateBodies_total:
  assumes "maxBuoyancyPoints s \<noteq> PInf"
  shows "\<exists>bs' k'. updateBodies s getColl rnd dt wl t bs k = Some (bs', k')"
proof (induction bs arbitrary: k)
  case Nil
  show ?case by simp
next
  case (Cons rb rest)
  show ?case
  proof (cases "bodyType rb = Dynamic")
    case True
    obtain rb' k' where 1: "applyWaterPhysics s getColl rnd rb wl t dt k = Some (rb', k')"
      using applyWaterPhysics_total [OF assms] by blast
    obtain rest' k'' where "updateBodies s getColl rnd dt wl t rest k' = Some (rest', k'')"
      using Cons.IH by blast
    with True 1 show ?thesis by simp
  next
    case False
    obtain rest' k'' where "updateBodies s getColl rnd dt wl t rest k = Some (rest', k'')"
      using Cons.IH by blast
    with False show ?thesis by simp
  qed
qed

lemma updateBodies_append:
  "updateBodies s getColl rnd dt wl t (xs @ ys) k =
     (case updateBodies s getColl rnd dt wl t xs k of
        None \<Rightarrow> None
      | Some (xs', k') \<Rightarrow>
          (case updateBodies s getColl rnd dt wl t ys k' of
             None \<Rightarrow> None
           | Some (ys', k'') \<Rightarrow> Some (xs' @ ys', k'')))"
  by (induction xs arbitrary: k) (auto split: option.splits)

text \<open>
  C8: a body whose position has a NaN coordinate, or whose collider lookup returns null,
  comes back from \<open>applyWaterPhysics\<close> unchanged, with no impulse applied, and the call
  returns; \<open>update\<close> over a world that holds such a body returns too, with that body
  unchanged in its place and the bodies before and after it processed by the same loop.
  The sampling loop must be finite, that is \<open>maxBuoyancyPoints\<close> is not \<open>Infinity\<close>.
\<close>

theorem malformed_body_skipped:
  assumes "vx (translation rb) = NaN \<or> vy (translation rb) = NaN \<or>
           vz (translation rb) = NaN \<or> getCollider w (collider0 rb) = None"
    and "maxBuoyancyPoints s \<noteq> PInf"
    and "bodies w = before @ rb # after"
  shows "(\<exists>k'. applyWaterPhysics s (getCollider w) rnd rb waterLevel time deltaTime k =
            Some (rb, k')) \<and>
         (\<exists>before' k1 k2 after' k3.
            updateBodies s (getCollider w) rnd deltaTime waterLevel time before k =
              Some (before', k1) \<and>
            updateBodies s (getCollider w) rnd deltaTime waterLevel time after k2 =
              Some (after', k3) \<and>
            update s rnd w deltaTime waterLevel time k =
              Some (w\<lparr>bodies := before' @ rb # after'\<rparr>, k3))"
proof -
  let ?upd = "updateBodies s (getCollider w) rnd deltaTime waterLevel time"
  have bad: "hasNaN (translation rb) \<or> getCollider w (collider0 rb) = None"
    using assms(1) by (auto simp: hasNaN_def)
  have skip: "\<exists>k'. applyWaterPhysics s (getCollider w) rnd rb waterLevel time deltaTime k =
      Some (rb, k')" for k
    using bad assms(2) by (rule applyWaterPhysics_malformed)
  obtain before' k1 where b: "?upd before k = Some (before', k1)"
    using updateBodies_total [OF assms(2)] by blast
  obtain k2 where one: "?upd [rb] k1 = Some ([rb], k2)"
  proof (cases "bodyType rb = Dynamic")
    case True
    obtain k' where "applyWaterPhysics s (getCollider w) rnd rb waterLevel time deltaTime k1 =
        Some (rb, k')"
      using skip by blast
    with True have "?upd [rb] k1 = Some ([rb], k')" by simp
    then show ?thesis by (rule that)
  next
    case False
    then have "?upd [rb] k1 = Some ([rb], k1)" by simp
    then show ?thesis by (rule that)
  qed
  obtain after' k3 where a: "?upd after k2 = Some (after', k3)"
    using updateBodies_total [OF assms(2)] by blast
  have "?upd (before @ [rb] @ after) k = Some (before' @ [rb] @ after', k3)"
    by (simp only: updateBodies_append b one a option.case prod.case)
  then have "update s rnd w deltaTime waterLevel time k =
      Some (w\<lparr>bodies := before' @ rb # after'\<rparr>, k3)"
    using assms(3) by (simp add: update_def)
  with b a skip show ?thesis by blast
qed

theorem malformed_body_skipped_witness:
  "vx (translation (bodyAt (Vec3 NaN (Num 0) (Num 0)))) = NaN \<and>
   maxBuoyancyPoints waterPhysicsParams \<noteq> PInf \<and>
   update waterPhysicsParams centre pond (Num 0.1) (Num 0.5) (Num 1) 0 =
     Some (pond\<lparr>bodies :=
       [bodyAt (Vec3 NaN (Num 0) (Num 0)),
        (bodyAt (Vec3 (Num 0) (Num 0) (Num 0)))\<lparr>impulses :=
          [Vec3 (Num 0) (Num (1 * 9.81 * floatDepth * 1.2 * 0.1)) (Num 0),
           Vec3 (Num (- (2.8 * floatDepth) * 0.1)) (Num 0) (Num 0),
           Vec3 (Num (1 / sqrt 2 * (0.2 * 0.5 * sin 1) * 0.1)) (Num 0)
             (Num (1 / sqrt 2 * (0.2 * 0.5 * sin 1) * 0.1))]\<rparr>]\<rparr>, 6)"
proof -
  let ?bad = "bodyAt (Vec3 NaN (Num 0) (Num 0))"
  let ?ok = "bodyAt (Vec3 (Num 0) (Num 0) (Num 0))"
  have h: "vx (translation ?bad) = NaN \<or> vy (translation ?bad) = NaN \<or>
           vz (translation ?bad) = NaN \<or> getCollider pond (collider0 ?bad) = None"
    "maxBuoyancyPoints waterPhysicsParams \<noteq> PInf"
    "bodies pond = [] @ ?bad # [?ok]"
    by (simp_all add: bodyAt_def pond_def defaults)
  have dyn: "bodyType ?ok = Dynamic" "bodyType ?bad = Dynamic"
    by (simp_all add: bodyAt_def)
  have gc: "getCollider pond = cubeColliders"
    by (simp add: pond_def)
  from malformed_body_skipped [OF h, of centre "Num 0.5" "Num 1" "Num 0.1" 0]
  obtain k' where skip: "applyWaterPhysics waterPhysicsParams cubeColliders centre ?bad
      (Num 0.5) (Num 1) (Num 0.1) 0 = Some (?bad, k')"
    unfolding gc by blast
  have "k' = 3"
    using skip unitCube_count
    by (simp add: applyWaterPhysics_def Let_def bodyAt_def cubeColliders_def split: if_splits)
  with skip have "update waterPhysicsParams centre pond (Num 0.1) (Num 0.5) (Num 1) 0 =
     Some (pond\<lparr>bodies := [?bad, ?ok\<lparr>impulses :=
          [Vec3 (Num 0) (Num (1 * 9.81 * floatDepth * 1.2 * 0.1)) (Num 0),
           Vec3 (Num (- (2.8 * floatDepth) * 0.1)) (Num 0) (Num 0),
           Vec3 (Num (1 / sqrt 2 * (0.2 * 0.5 * sin 1) * 0.1)) (Num 0)
             (Num (1 / sqrt 2 * (0.2 * 0.5 * sin 1) * 0.1))]\<rparr>]\<rparr>, 6)"
    using floating_tick [of 3] dyn
    by (simp add: update_def pond_def)
  then show ?thesis using h(2) by (simp add: bodyAt_def)
qed

end
